theory Spec2Isabelle
  imports Complex_Main
begin

section \<open>Strings\<close>

text \<open>
  A text is a list of characters, each a code point below 256.  Whitespace is what
  \<open>str.isspace\<close>, \<open>str.strip\<close> and the pattern \<open>\s\<close> accept among these.
\<close>

definition is_space :: "char \<Rightarrow> bool" where
  "is_space c = (c \<in> set [CHR 0x09, CHR 0x0A, CHR 0x0B, CHR 0x0C, CHR 0x0D, CHR 0x1C, CHR 0x1D,
     CHR 0x1E, CHR 0x1F, CHR 0x20, CHR 0x85, CHR 0xA0])"

text \<open>\<open>s.strip(chars)\<close> and \<open>s.strip()\<close>\<close>

definition rstrip_chars :: "(char \<Rightarrow> bool) \<Rightarrow> string \<Rightarrow> string" where
  "rstrip_chars p s = rev (dropWhile p (rev s))"

definition strip_chars :: "(char \<Rightarrow> bool) \<Rightarrow> string \<Rightarrow> string" where
  "strip_chars p s = rstrip_chars p (dropWhile p s)"

definition strip :: "string \<Rightarrow> string" where
  "strip s = strip_chars is_space s"

section \<open>SQL extraction (extract_sql_from_text in genie_client_databricks.py)\<close>

text \<open>
  The function tries six regular expressions in turn, each with \<open>re.findall\<close> under
  \<open>re.IGNORECASE | re.DOTALL\<close>, and returns the first element of the first result that
  is not empty, stripped.  Every pattern has one group, so the first element is the
  group of the leftmost match.  Each pattern is embedded as a function that matches it
  at the head of a text and returns the group; \<open>first_match\<close> moves the head along the
  text as the regular expression engine does.

  Under \<open>re.IGNORECASE\<close> a letter of the pattern matches itself in either case.  All
  letters of the patterns are ASCII.
\<close>

definition ascii_lower :: "char \<Rightarrow> char" where
  "ascii_lower c =
     (case map_of (zip ''ABCDEFGHIJKLMNOPQRSTUVWXYZ'' ''abcdefghijklmnopqrstuvwxyz'') c of
        None \<Rightarrow> c | Some l \<Rightarrow> l)"

text \<open>
  A literal at the head of the text, case ignored: the text after it, or \<open>None\<close>.
\<close>

fun literal :: "string \<Rightarrow> string \<Rightarrow> string option" where
  "literal [] s = Some s"
| "literal (p # ps) [] = None"
| "literal (p # ps) (c # cs) = (if ascii_lower p = ascii_lower c then literal ps cs else None)"

text \<open>
  The lazy group \<open>(.*?)\<close> followed by \<open>\s*```\<close>, with \<open>re.DOTALL\<close>: the engine
  lengthens the group one character at a time (any character, newlines included) and
  stops as soon as optional whitespace and a closing fence follow.  There is no match
  when no closing fence follows at all.  The whitespace before the fence is taken
  greedily; giving some of it back opens no other match, since the fence starts with
  a backtick.
\<close>

definition closes :: "string \<Rightarrow> bool" where
  "closes s = (literal ''```'' (dropWhile is_space s) \<noteq> None)"

fun lazy_fence :: "string \<Rightarrow> string option" where
  "lazy_fence [] = None"
| "lazy_fence (c # cs) =
     (if closes (c # cs) then Some [] else map_option ((#) c) (lazy_fence cs))"

text \<open>
  The lazy part \<open>.*?\<close> followed by \<open>(?:;|$)\<close>: up to and including the first semicolon,
  or up to the end of the text (\<open>$\<close> matches there and before a final newline), so
  this part always matches.
\<close>

fun lazy_statement :: "string \<Rightarrow> string" where
  "lazy_statement [] = []"
| "lazy_statement (c # cs) =
     (if c = CHR '';'' then [c]
      else if c = CHR 0x0A \<and> cs = [] then []
      else c # lazy_statement cs)"

text \<open>
  The pattern \<open>```sql\s*(.*?)\s*```\<close> at the head of the text: its group.  The
  whitespace after the tag is taken greedily and is not part of the group.
\<close>

definition sql_fence_here :: "string \<Rightarrow> string option" where
  "sql_fence_here s =
     (case literal ''```sql'' s of
        None \<Rightarrow> None
      | Some rest \<Rightarrow> lazy_fence (dropWhile is_space rest))"

text \<open>The pattern \<open>```\s*(SELECT.*?)\s*```\<close> at the head of the text: its group.\<close>

definition select_fence_here :: "string \<Rightarrow> string option" where
  "select_fence_here s =
     (case literal ''```'' s of
        None \<Rightarrow> None
      | Some rest \<Rightarrow>
          (let body = dropWhile is_space rest in
           case literal ''SELECT'' body of
             None \<Rightarrow> None
           | Some after \<Rightarrow> map_option ((@) (take 6 body)) (lazy_fence after)))"

text \<open>
  The pattern \<open>(KEYWORD\s+.*?(?:;|$))\<close> at the head of the text: its group, the
  keyword as the text spells it, the whitespace after it (at least one character) and
  the statement.
\<close>

definition statement_here :: "string \<Rightarrow> string \<Rightarrow> string option" where
  "statement_here keyword s =
     (case literal keyword s of
        None \<Rightarrow> None
      | Some rest \<Rightarrow>
          if takeWhile is_space rest = [] then None
          else Some (take (length keyword) s @ takeWhile is_space rest @
                     lazy_statement (dropWhile is_space rest)))"

text \<open>
  \<open>re.findall(pattern, text)\<close> and the first element of its result: the group of the
  leftmost match, \<open>None\<close> when the list is empty.
\<close>

fun first_match :: "(string \<Rightarrow> string option) \<Rightarrow> string \<Rightarrow> string option" where
  "first_match here [] = here []"
| "first_match here (c # cs) =
     (case here (c # cs) of Some g \<Rightarrow> Some g | None \<Rightarrow> first_match here cs)"

definition sql_patterns :: "(string \<Rightarrow> string option) list" where
  "sql_patterns =
     [sql_fence_here, select_fence_here, statement_here ''SELECT'', statement_here ''INSERT'',
      statement_here ''UPDATE'', statement_here ''DELETE'']"

text \<open>
  The loop over the patterns: the first pattern with a match decides, and its group is
  returned stripped; the empty string when no pattern matches.
\<close>

fun try_patterns :: "(string \<Rightarrow> string option) list \<Rightarrow> string \<Rightarrow> string" where
  "try_patterns [] text = ''''"
| "try_patterns (pattern # patterns) text =
     (case first_match pattern text of
        Some g \<Rightarrow> strip g
      | None \<Rightarrow> try_patterns patterns text)"

definition extract_sql_from_text :: "string \<Rightarrow> string" where
  "extract_sql_from_text text = try_patterns sql_patterns text"



section \<open>Table extraction (extract_data_from_text in genie_client_databricks.py)\<close>

subsection \<open>Collecting the table lines\<close>

text \<open>\<open>s.split(sep)\<close> for a separator of one character: the pieces, empty ones kept.\<close>

fun split_on :: "char \<Rightarrow> string \<Rightarrow> string list" where
  "split_on sep [] = [[]]"
| "split_on sep (c # cs) =
     (if c = sep then [] # split_on sep cs
      else (case split_on sep cs of [] \<Rightarrow> [[c]] | piece # pieces \<Rightarrow> (c # piece) # pieces))"

text \<open>\<open>sep.join(pieces)\<close>\<close>

fun join :: "string \<Rightarrow> string list \<Rightarrow> string" where
  "join sep [] = []"
| "join sep [piece] = piece"
| "join sep (piece # pieces) = piece @ sep @ join sep pieces"

definition count_char :: "char \<Rightarrow> string \<Rightarrow> nat" where
  "count_char c s = length (filter (\<lambda>x. x = c) s)"

text \<open>\<open>re.match(r'^[\|\s\-:]+$', line)\<close>: the line is made of pipes, dashes, colons and whitespace.\<close>

definition is_separator_line :: "string \<Rightarrow> bool" where
  "is_separator_line line = (line \<noteq> [] \<and> list_all (\<lambda>c. c \<in> set ''|-:'' \<or> is_space c) line)"

text \<open>
  The scanning loop of \<open>extract_data_from_text\<close>, with its flag \<open>in_table\<close>: the table
  lines it appends, in order.  Both \<open>break\<close> branches end the scan.
\<close>

fun collect_table_lines :: "bool \<Rightarrow> string list \<Rightarrow> string list" where
  "collect_table_lines in_table [] = []"
| "collect_table_lines in_table (raw # rest) =
     (let line = strip raw in
      if CHR ''|'' \<in> set line \<and> count_char (CHR ''|'') line \<ge> 2 then
        (if \<not> is_separator_line line then line # collect_table_lines True rest
         else collect_table_lines True rest)
      else if in_table \<and> line = [] then []
      else if in_table \<and> CHR ''|'' \<notin> set line then []
      else collect_table_lines in_table rest)"

text \<open>\<open>[cell.strip() for cell in line.strip('|').split('|')]\<close>\<close>

definition cells_of_line :: "string \<Rightarrow> string list" where
  "cells_of_line line = map strip (split_on (CHR ''|'') (strip_chars (\<lambda>c. c = CHR ''|'') line))"

text \<open>\<open>','.join(f'"{cell}"' for cell in cells)\<close>\<close>

definition csv_line :: "string list \<Rightarrow> string" where
  "csv_line cells = join '','' (map (\<lambda>cell. [CHR 0x22] @ cell @ [CHR 0x22]) cells)"

subsection \<open>The CSV reader\<close>

text \<open>
  The rows are not shaped by \<open>extract_data_from_text\<close> itself: it writes every cell of
  every collected line between double quotes, joins them with commas and newlines, and
  hands the text to \<open>pandas.read_csv\<close> with default arguments.  What comes back is a
  data frame: the column names and the rows of typed cells.  \<open>NaN\<close> is the missing
  value.  The row index, which is the default range when the reader takes none from the
  data, is not part of the model.

  The reader is a library of its own, and only part of what it does is modelled.  On an
  input outside that part the model answers \<open>NotModelled\<close> (\<open>Unmodelled\<close> for the frame
  that \<open>extract_data_from_text\<close> returns): nothing is said about the program there.
\<close>

datatype cell = StrCell string | IntCell int | FloatCell real | NaN

datatype dataframe =
    DataFrame (columns: "string list") (data_rows: "cell list list")
  | Unmodelled

datatype 'a reading = Parsed 'a | ParserError | NotModelled

text \<open>
  The reader's tokenizer, on the three states that a text of quoted fields drives it
  through.  A quote opens a field; inside, every printable ASCII character is part of
  the field up to the next quote; after the closing quote a comma starts the next
  field, a newline ends the line, and the end of the text ends the last line.  Every
  other step (an unquoted field, a doubled quote, a character after the closing quote,
  a control or non-ASCII character, an empty line, the text ending inside a field) is
  left unmodelled.
\<close>

datatype tok_state = StartField | InQuotedField | QuoteInQuotedField

definition printable :: "char \<Rightarrow> bool" where
  "printable c = (32 \<le> (of_char c :: nat) \<and> (of_char c :: nat) \<le> 126)"

fun tokenize :: "tok_state \<Rightarrow> string \<Rightarrow> string list \<Rightarrow> string \<Rightarrow> string list list reading" where
  "tokenize StartField field row [] = (if row = [] then Parsed [] else NotModelled)"
| "tokenize InQuotedField field row [] = NotModelled"
| "tokenize QuoteInQuotedField field row [] = Parsed [row @ [field]]"
| "tokenize StartField field row (c # cs) =
     (if c = CHR 0x22 then tokenize InQuotedField [] row cs else NotModelled)"
| "tokenize InQuotedField field row (c # cs) =
     (if c = CHR 0x22 then tokenize QuoteInQuotedField field row cs
      else if printable c then tokenize InQuotedField (field @ [c]) row cs
      else NotModelled)"
| "tokenize QuoteInQuotedField field row (c # cs) =
     (if c = CHR '','' then tokenize StartField [] (row @ [field]) cs
      else if c = CHR 0x0A then
        (case tokenize StartField [] [] cs of
           Parsed lines \<Rightarrow> Parsed ((row @ [field]) # lines)
         | ParserError \<Rightarrow> ParserError
         | NotModelled \<Rightarrow> NotModelled)
      else NotModelled)"

text \<open>
  Type inference, one column at a time.  Three kinds of field are told apart: the
  integer written plainly (an optional minus sign and at most 15 digits, no leading
  zero, no negative zero), which the reader converts to a number; the word (it starts
  with a letter and is, whatever its case, none of the words set aside because the
  reader takes some spelling of them for infinity, a missing value or a truth value),
  which stays a string; and everything
  else (decimal fractions, exponents, signs, dates and so on), which is left
  unmodelled.
\<close>

datatype token_class = IntToken int | WordToken | OtherToken

definition digit_of :: "char \<Rightarrow> nat option" where
  "digit_of c = map_of (zip ''0123456789'' [0, 1, 2, 3, 4, 5, 6, 7, 8, 9]) c"

fun digits_value :: "nat \<Rightarrow> string \<Rightarrow> nat option" where
  "digits_value acc [] = Some acc"
| "digits_value acc (c # cs) =
     (case digit_of c of None \<Rightarrow> None | Some d \<Rightarrow> digits_value (10 * acc + d) cs)"

definition plain_number :: "string \<Rightarrow> nat option" where
  "plain_number s =
     (if s = [] \<or> 15 < length s \<or> (hd s = CHR ''0'' \<and> s \<noteq> ''0'') then None
      else digits_value 0 s)"

definition reserved_words :: "string list" where
  "reserved_words =
     [''inf'', ''infinity'', ''nan'', ''nat'', ''na'', ''n/a'', ''null'', ''none'', ''true'',
      ''false'']"

definition is_letter :: "char \<Rightarrow> bool" where
  "is_letter c = (ascii_lower c \<in> set ''abcdefghijklmnopqrstuvwxyz'')"

definition classify :: "string \<Rightarrow> token_class" where
  "classify s =
     (case s of
        [] \<Rightarrow> OtherToken
      | c # cs \<Rightarrow>
          if c = CHR ''-'' then
            (case plain_number cs of
               None \<Rightarrow> OtherToken
             | Some n \<Rightarrow> if n = 0 then OtherToken else IntToken (- int n))
          else if is_letter c then
            (if map ascii_lower s \<in> set reserved_words then OtherToken else WordToken)
          else (case plain_number s of None \<Rightarrow> OtherToken | Some n \<Rightarrow> IntToken (int n)))"

text \<open>
  A field of a column after padding: \<open>None\<close> where the line was too short to have
  it.  Such a field and the empty field are both missing values.
\<close>

definition is_missing :: "string option \<Rightarrow> bool" where
  "is_missing t = (t = None \<or> t = Some [])"

definition int_of_token :: "string option \<Rightarrow> int option" where
  "int_of_token t =
     (case t of None \<Rightarrow> None
      | Some s \<Rightarrow> (case classify s of IntToken n \<Rightarrow> Some n | _ \<Rightarrow> None))"

text \<open>
  The cells of one column.  Integers throughout give an integer column; integers with
  missing values give a floating-point column; a column with a word in it keeps every
  field as the string it is; a missing value is \<open>NaN\<close> in every case.
\<close>

definition infer_column :: "string option list \<Rightarrow> cell list option" where
  "infer_column tokens =
     (let present = filter (\<lambda>t. \<not> is_missing t) tokens in
      if list_ex (\<lambda>t. classify (the t) = OtherToken) present then None
      else if list_all (\<lambda>t. int_of_token t \<noteq> None) present then
        (if present = tokens then Some (map (\<lambda>t. IntCell (the (int_of_token t))) tokens)
         else Some (map (\<lambda>t. if is_missing t then NaN
                               else FloatCell (of_int (the (int_of_token t)))) tokens))
      else Some (map (\<lambda>t. if is_missing t then NaN else StrCell (the t)) tokens))"

definition pad_row :: "nat \<Rightarrow> string list \<Rightarrow> string option list" where
  "pad_row width fields = map Some fields @ replicate (width - length fields) None"

fun all_known :: "'a option list \<Rightarrow> 'a list option" where
  "all_known [] = Some []"
| "all_known (None # xs) = None"
| "all_known (Some x # xs) = map_option ((#) x) (all_known xs)"

text \<open>
  From the tokenized lines to the frame.  The first line is the header.  A line with
  fewer fields than the header is filled up with missing fields.  A line after the
  first data line with more fields than the header is an error of the reader
  (\<open>ParserError\<close>: "Expected n fields in line k, saw m").  Left unmodelled: a header
  with an empty or a repeated name (the reader renames such columns), a first data
  line longer than the header (the reader turns its leading fields into the row
  index), and a data line of empty fields only.
\<close>

definition frame_of_lines :: "string list list \<Rightarrow> dataframe reading" where
  "frame_of_lines lines =
     (case lines of
        [] \<Rightarrow> NotModelled
      | header # body \<Rightarrow>
          if [] \<in> set header \<or> \<not> distinct header then NotModelled
          else if list_ex (\<lambda>fields. list_all (\<lambda>f. f = []) fields) body then NotModelled
          else if body \<noteq> [] \<and> length header < length (hd body) then NotModelled
          else if list_ex (\<lambda>fields. length header < length fields) (tl body) then ParserError
          else
            (let padded = map (pad_row (length header)) body;
                 cols = map (\<lambda>j. infer_column (map (\<lambda>r. r ! j) padded)) [0..<length header]
             in case all_known cols of
                  None \<Rightarrow> NotModelled
                | Some cs \<Rightarrow>
                    Parsed (DataFrame header
                      (map (\<lambda>i. map (\<lambda>col. col ! i) cs) [0..<length body]))))"

text \<open>\<open>pd.read_csv(StringIO(csv_text))\<close>\<close>

definition read_csv :: "string \<Rightarrow> dataframe reading" where
  "read_csv csv_text =
     (case tokenize StartField [] [] csv_text of
        Parsed lines \<Rightarrow> frame_of_lines lines
      | ParserError \<Rightarrow> ParserError
      | NotModelled \<Rightarrow> NotModelled)"

subsection \<open>extract_data_from_text\<close>

text \<open>
  The clean-up after reading: the column names are stripped, and so is every string of
  a column of strings.  Were two stripped names equal, \<open>df[col]\<close> would be a frame
  without a \<open>dtype\<close>, the attribute error would be caught with every other
  exception, and the empty frame returned.
\<close>

definition strip_cell :: "cell \<Rightarrow> cell" where
  "strip_cell c = (case c of StrCell s \<Rightarrow> StrCell (strip s) | _ \<Rightarrow> c)"

definition clean_frame :: "dataframe \<Rightarrow> dataframe" where
  "clean_frame frame =
     (case frame of
        Unmodelled \<Rightarrow> Unmodelled
      | DataFrame cols rows \<Rightarrow>
          if distinct (map strip cols) then DataFrame (map strip cols) (map (map strip_cell) rows)
          else DataFrame [] [])"

text \<open>
  The function.  \<open>DataFrame [] []\<close> is \<open>pd.DataFrame()\<close>, the empty frame, returned
  when fewer than two table lines were collected and when the reader raised.
\<close>

definition extract_data_from_text :: "string \<Rightarrow> dataframe" where
  "extract_data_from_text text =
     (let lines = split_on (CHR 0x0A) text;
          table_lines = collect_table_lines False lines
      in if length table_lines \<ge> 2 then
           (let csv_lines = map (\<lambda>line. csv_line (cells_of_line line)) table_lines;
                csv_text = join [CHR 0x0A] csv_lines
            in case read_csv csv_text of
                 Parsed frame \<Rightarrow> clean_frame frame
               | ParserError \<Rightarrow> DataFrame [] []
               | NotModelled \<Rightarrow> Unmodelled)
         else DataFrame [] [])"

section \<open>The structured answer (ask_genie_structured)\<close>

record GenieResult =
  answer :: string
  sql :: string
  df :: dataframe

text \<open>
  What the agent returns: a dictionary with a list of messages, an object with a
  \<open>content\<close> attribute, or something else.  A message is a dictionary (of which only
  the entries "role" and "content" are read), an object with a \<open>content\<close> attribute
  (read through \<open>str\<close>), or something else.  The call of the agent may raise; the
  exception is kept by its text.
\<close>

datatype message = DictMessage "string option" "string option" | ObjectMessage string | OtherMessage

datatype agent_reply = DictReply "message list" | ObjectReply string | OtherReply

text \<open>The f-string that wraps the question.\<close>

definition enhanced_question :: "string \<Rightarrow> string" where
  "enhanced_question question =
     [CHR 0x0A] @
     ''Context: You are analyzing data for Panda Restaurant Group, a fast-casual restaurant chain. '' @
     [CHR 0x0A] @
     ''The data includes store performance, P&L metrics, operational data, and regional comparisons.'' @
     [CHR 0x0A] @
     [CHR 0x0A] @
     ''Available tables and views:'' @
     [CHR 0x0A] @
     ''- users.ashwin_pothukuchi.pandapnl: Main P&L data by store and period (storenumber, periodid, Type, SubType, LineItem, Actual, Plan, Group)'' @
     [CHR 0x0A] @
     ''- users.ashwin_pothukuchi.storedim: Store dimension (storenumber, store_name, state, region, square_feet, store_type)  '' @
     [CHR 0x0A] @
     ''- users.ashwin_pothukuchi.dimperiod: Period dimension (PeriodID, FiscalYear, FiscalPeriod, FiscalPeriodName, etc.)'' @
     [CHR 0x0A] @
     ''- users.ashwin_pothukuchi.panda_monthly_summary: Monthly P&L aggregates (month_year, total_revenue_sum, labor_pct_of_sales, ebitda_margin_pct, etc.)'' @
     [CHR 0x0A] @
     ''- users.ashwin_pothukuchi.panda_store_summary: Store-level performance summary (store_name, total_revenue, labor_pct_of_sales, ebitda_margin_pct, sales_per_sq_ft, etc.)'' @
     [CHR 0x0A] @
     [CHR 0x0A] @
     ''Key data structure:'' @
     [CHR 0x0A] @
     ''- P&L data is organized by Type (Revenue, COGS, Labor, OpEx), SubType, and LineItem'' @
     [CHR 0x0A] @
     ''- Revenue items are positive, cost items are negative'' @
     [CHR 0x0A] @
     ''- Margins and percentages are pre-calculated in summary views'' @
     [CHR 0x0A] @
     ''- Store performance can be analyzed by region, store type, and size'' @
     [CHR 0x0A] @
     [CHR 0x0A] @
     ''Question: '' @
     question @
     [CHR 0x0A] @
     [CHR 0x0A] @
     ''Please provide actionable insights for restaurant operations and management.'' @
     [CHR 0x0A] @
     ''If you execute a SQL query, please include the query in your response.'' @
     [CHR 0x0A] @
     ''If you return data, please format it clearly in a table.'' @
     [CHR 0x0A] @
     ''Focus on operational metrics like labor costs, food costs, sales performance, and efficiency.'' @
     [CHR 0x0A]"

text \<open>
  The loop \<open>for msg in reversed(messages)\<close>, on the reversed list: the content of the
  first message that is an assistant's dictionary with a non-empty content, or an
  object with a content; the empty string when there is none.
\<close>

fun latest_content :: "message list \<Rightarrow> string" where
  "latest_content [] = []"
| "latest_content (DictMessage role content # msgs) =
     (if role = Some ''assistant'' \<and> content \<noteq> None \<and> content \<noteq> Some []
      then the content else latest_content msgs)"
| "latest_content (ObjectMessage content # msgs) = content"
| "latest_content (OtherMessage # msgs) = latest_content msgs"

definition content_of :: "agent_reply \<Rightarrow> string" where
  "content_of result =
     (case result of
        DictReply messages \<Rightarrow> latest_content (rev messages)
      | ObjectReply content \<Rightarrow> content
      | OtherReply \<Rightarrow> [])"

definition ask_genie_structured :: "(string \<Rightarrow> string + agent_reply) \<Rightarrow> string \<Rightarrow> GenieResult" where
  "ask_genie_structured agent question =
     (case agent (enhanced_question question) of
        Inl e \<Rightarrow> \<lparr>answer = ''Error calling Genie: '' @ e, sql = [], df = DataFrame [] []\<rparr>
      | Inr result \<Rightarrow>
          (let content = content_of result in
           if content = [] then
             \<lparr>answer = ''No response from Genie'', sql = [], df = DataFrame [] []\<rparr>
           else
             \<lparr>answer = content, sql = extract_sql_from_text content,
              df = extract_data_from_text content\<rparr>))"

section \<open>The local client (genie_client_local.py)\<close>

text \<open>
  The local client has helper functions of its own, under the same names as those of
  the Databricks client: its pattern list and its two extraction functions.
\<close>

definition sql_patterns_local :: "(string \<Rightarrow> string option) list" where
  "sql_patterns_local =
     [sql_fence_here, select_fence_here, statement_here ''SELECT'', statement_here ''INSERT'',
      statement_here ''UPDATE'', statement_here ''DELETE'']"

definition extract_sql_from_text_local :: "string \<Rightarrow> string" where
  "extract_sql_from_text_local text = try_patterns sql_patterns_local text"

definition extract_data_from_text_local :: "string \<Rightarrow> dataframe" where
  "extract_data_from_text_local text =
     (let lines = split_on (CHR 0x0A) text;
          table_lines = collect_table_lines False lines
      in if length table_lines \<ge> 2 then
           (let csv_lines = map (\<lambda>line. csv_line (cells_of_line line)) table_lines;
                csv_text = join [CHR 0x0A] csv_lines
            in case read_csv csv_text of
                 Parsed frame \<Rightarrow> clean_frame frame
               | ParserError \<Rightarrow> DataFrame [] []
               | NotModelled \<Rightarrow> Unmodelled)
         else DataFrame [] [])"

section \<open>Claim validation against the P&L fact table (validate_analysis.py)\<close>

text \<open>
  The fact table is the data frame read from the CSV file.  Only the four columns the
  validator touches are modelled.  A text column holds a string or a missing value
  (\<open>None\<close>); the numeric columns hold numbers and no missing values, with arithmetic
  taken exactly.  Rows are kept in file order.
\<close>

record pnl_row =
  Type :: "string option"
  LineItem :: "string option"
  Actual :: real
  Plan :: real












subsection \<open>validate_revenue_claims\<close>





subsection \<open>validate_summary_metrics\<close>










section \<open>Reading the specification\<close>









subsection \<open>Fact tables used as examples\<close>






subsection \<open>Occurrences and example texts\<close>

text \<open>
  \<open>occurs_before lit n s\<close>: the literal, case ignored, occurs in \<open>s\<close> at a position
  before \<open>n\<close>.
\<close>

fun occurs_before :: "string \<Rightarrow> nat \<Rightarrow> string \<Rightarrow> bool" where
  "occurs_before lit 0 s = False"
| "occurs_before lit (Suc n) [] = False"
| "occurs_before lit (Suc n) (c # cs) = (literal lit (c # cs) \<noteq> None \<or> occurs_before lit n cs)"

text \<open>Scenario A of the specification, in its four parts.\<close>

definition scenario_a_before :: string where
  "scenario_a_before = ''Here: ''"

definition scenario_a_body :: string where
  "scenario_a_body = [CHR 0x0A] @ ''SELECT 1'' @ [CHR 0x0A]"

definition scenario_a_after :: string where
  "scenario_a_after = '' and that'' @ [CHR 0x27] @ ''s it''"

definition scenario_a :: string where
  "scenario_a = scenario_a_before @ ''```sql'' @ scenario_a_body @ ''```'' @ scenario_a_after"


text \<open>Scenario B of the specification: header, separator and one data line.\<close>

definition scenario_b :: string where
  "scenario_b =
     ''| Type | Actual | Plan |'' @ [CHR 0x0A] @
     ''|------|--------|------|'' @ [CHR 0x0A] @
     ''| Food | 100 | 120 |''"






section \<open>Properties of the validator\<close>















subsection \<open>Claims without a matching row\<close>




subsection \<open>Claims with several matching rows\<close>




subsection \<open>The validity test\<close>






subsection \<open>The variance percentage\<close>




section \<open>Properties of the extraction from the response text\<close>

lemma literal_append: "literal p opener = Some [] \<Longrightarrow> literal p (opener @ rest) = Some rest"
  by (induction p opener rule: literal.induct) (auto split: if_splits)

lemma literal_nonempty: "literal (p # ps) opener = Some [] \<Longrightarrow> opener \<noteq> []"
  by (cases opener) auto

lemma first_match_skip:
  assumes "\<And>s. literal lit s = None \<Longrightarrow> here s = None" "lit \<noteq> []"
  shows "\<not> occurs_before lit (length pre) (pre @ s) \<Longrightarrow>
         first_match here (pre @ s) = first_match here s"
proof (induction pre)
  case Nil
  then show ?case by simp
next
  case (Cons c pre)
  then have "literal lit (c # pre @ s) = None" and "\<not> occurs_before lit (length pre) (pre @ s)"
    by simp_all
  with Cons.IH assms(1) show ?case by simp
qed

lemma not_space_backtick: "\<not> is_space (CHR ''`'')"
  by (simp add: is_space_def)

lemma closes_all_space:
  "\<forall>c\<in>set x. is_space c \<Longrightarrow> closes (x @ ''```'' @ post)"
proof -
  assume "\<forall>c\<in>set x. is_space c"
  then have "dropWhile is_space (x @ ''```'' @ post) = ''```'' @ post"
    by (simp add: dropWhile_append not_space_backtick)
  then show ?thesis by (simp add: closes_def ascii_lower_def)
qed

lemma closes_not:
  assumes "\<not> occurs_before ''```'' (length x) (x @ rest)" "\<not> (\<forall>c\<in>set x. is_space c)"
  shows "\<not> closes (x @ rest)"
  using assms
proof (induction x)
  case Nil
  then show ?case by simp
next
  case (Cons c x)
  show ?case
  proof (cases "is_space c")
    case True
    with Cons.prems have "\<not> closes (x @ rest)"
      by (intro Cons.IH) auto
    with True show ?thesis by (simp add: closes_def)
  next
    case False
    with Cons.prems(1) show ?thesis by (simp add: closes_def)
  qed
qed

lemma rstrip_chars_Cons:
  "rstrip_chars p (c # x) = (if \<forall>a\<in>set (c # x). p a then [] else c # rstrip_chars p x)"
  by (auto simp add: rstrip_chars_def dropWhile_append)

lemma lazy_fence_body:
  "\<not> occurs_before ''```'' (length x) (x @ ''```'' @ post) \<Longrightarrow>
   lazy_fence (x @ ''```'' @ post) = Some (rstrip_chars is_space x)"
proof (induction x)
  case Nil
  have "closes (''```'' @ post)" using closes_all_space [of "[]" post] by simp
  then show ?case by (simp add: rstrip_chars_def)
next
  case (Cons c x)
  show ?case
  proof (cases "\<forall>a\<in>set (c # x). is_space a")
    case True
    then have "closes ((c # x) @ ''```'' @ post)" by (rule closes_all_space)
    with True show ?thesis by (simp add: rstrip_chars_Cons)
  next
    case False
    with Cons.prems have "\<not> closes ((c # x) @ ''```'' @ post)"
      by (intro closes_not) auto
    moreover from Cons.prems have "\<not> occurs_before ''```'' (length x) (x @ ''```'' @ post)"
      by simp
    ultimately show ?thesis using False Cons.IH
      by (simp add: rstrip_chars_Cons)
  qed
qed

lemma occurs_before_suffix:
  "body = a @ b \<Longrightarrow> \<not> occurs_before lit (length body) (body @ rest) \<Longrightarrow>
   \<not> occurs_before lit (length b) (b @ rest)"
  by (induction a arbitrary: body) auto

lemma lstrip_rstrip:
  "dropWhile p (rstrip_chars p (dropWhile p s)) = rstrip_chars p (dropWhile p s)"
proof (cases "dropWhile p s")
  case Nil
  show ?thesis unfolding Nil by (simp add: rstrip_chars_def)
next
  case (Cons c cs)
  then have "\<not> p c" by (metis dropWhile_eq_Cons_conv)
  then show ?thesis unfolding Cons by (simp add: rstrip_chars_Cons)
qed

lemma rstrip_rstrip: "rstrip_chars p (rstrip_chars p s) = rstrip_chars p s"
  by (simp add: rstrip_chars_def)

lemma strip_idem: "strip (strip s) = strip s"
  by (simp add: strip_def strip_chars_def lstrip_rstrip rstrip_rstrip)

subsection \<open>The fence tagged sql\<close>

text \<open>
  C8: let the text hold a fence tagged sql (the tag in either case), the first such
  opener of the text, with an inner content that ends at the first closing fence after
  the opener.  Then \<open>extract_sql_from_text\<close> returns that inner content, stripped of
  the whitespace around it, whatever stands before the opener (plain fences and
  statements included) and whatever follows the closing fence.
\<close>

theorem sql_fence_wins:
  assumes tag: "literal ''```sql'' opener = Some []"
    and first: "\<not> occurs_before ''```sql'' (length pre) (pre @ opener @ body @ ''```'' @ post)"
    and inner: "\<not> occurs_before ''```'' (length body) (body @ ''```'' @ post)"
  shows "extract_sql_from_text (pre @ opener @ body @ ''```'' @ post) = strip body"
proof -
  let ?rest = "body @ ''```'' @ post"
  let ?b = "dropWhile is_space body"
  have skip: "first_match sql_fence_here (pre @ opener @ ?rest) = first_match sql_fence_here (opener @ ?rest)"
    using first by (intro first_match_skip [where lit = "''```sql''"]) (simp_all add: sql_fence_here_def)
  have ws: "body = takeWhile is_space body @ ?b" by simp
  have drop: "dropWhile is_space ?rest = ?b @ ''```'' @ post"
  proof (cases "?b = []")
    case True
    then have "\<forall>c\<in>set body. is_space c"
      by (metis dropWhile_eq_Nil_conv)
    then show ?thesis using True by (simp add: dropWhile_append not_space_backtick)
  next
    case False
    then have "\<exists>c\<in>set body. \<not> is_space c" by (metis dropWhile_eq_Nil_conv)
    then show ?thesis by (auto simp add: dropWhile_append)
  qed
  have "\<not> occurs_before ''```'' (length ?b) (?b @ ''```'' @ post)"
    using ws inner by (rule occurs_before_suffix)
  then have fence: "lazy_fence (?b @ ''```'' @ post) = Some (rstrip_chars is_space ?b)"
    by (rule lazy_fence_body)
  have here: "sql_fence_here (opener @ ?rest) = Some (strip body)"
    using literal_append [OF tag, of ?rest] drop fence
    by (simp add: sql_fence_here_def strip_def strip_chars_def)
  from literal_nonempty tag obtain c cs where "opener = c # cs"
    by (cases opener) auto
  with here have "first_match sql_fence_here (opener @ ?rest) = Some (strip body)"
    by simp
  with skip show ?thesis
    by (simp add: extract_sql_from_text_def sql_patterns_def strip_idem)
qed

text \<open>Scenario A: the fence is found although text follows it.\<close>

theorem sql_fence_wins_witness:
  "literal ''```sql'' ''```sql'' = Some [] \<and>
   \<not> occurs_before ''```sql'' (length scenario_a_before) scenario_a \<and>
   \<not> occurs_before ''```'' (length scenario_a_body) (scenario_a_body @ ''```'' @ scenario_a_after) \<and>
   extract_sql_from_text scenario_a = ''SELECT 1''"
proof -
  have tag: "literal ''```sql'' ''```sql'' = Some []"
    by code_simp
  have first: "\<not> occurs_before ''```sql'' (length scenario_a_before)
      (scenario_a_before @ ''```sql'' @ scenario_a_body @ ''```'' @ scenario_a_after)"
    by code_simp
  have inner: "\<not> occurs_before ''```'' (length scenario_a_body)
      (scenario_a_body @ ''```'' @ scenario_a_after)"
    by code_simp
  have body: "strip scenario_a_body = ''SELECT 1''"
    by code_simp
  from sql_fence_wins [OF tag first inner] tag first inner body show ?thesis
    by (simp only: scenario_a_def simp_thms)
qed

subsection \<open>Inline statements\<close>




subsection \<open>The two clients\<close>

text \<open>
  C10: on every text the extraction functions of the local client return what those
  of the Databricks client return, for the SQL statement and for the table.
\<close>

theorem clients_agree:
  "extract_sql_from_text_local text = extract_sql_from_text text \<and>
   extract_data_from_text_local text = extract_data_from_text text"
  by (simp add: extract_sql_from_text_local_def extract_sql_from_text_def sql_patterns_local_def
      sql_patterns_def extract_data_from_text_local_def extract_data_from_text_def)

theorem clients_agree_witness:
  "extract_sql_from_text_local scenario_a = ''SELECT 1'' \<and>
   extract_sql_from_text scenario_a = ''SELECT 1'' \<and>
   extract_data_from_text_local scenario_a = DataFrame [] [] \<and>
   extract_data_from_text scenario_a = DataFrame [] []"
proof -
  have "extract_sql_from_text scenario_a = ''SELECT 1''"
    by code_simp
  moreover have "extract_data_from_text scenario_a = DataFrame [] []"
    by code_simp
  ultimately show ?thesis using clients_agree [of scenario_a]
    by simp
qed

subsection \<open>The empty response\<close>

text \<open>
  C9: when the agent answers and the response text taken from its answer is empty,
  \<open>ask_genie_structured\<close> returns the fixed answer "No response from Genie", the
  empty string for the SQL statement and the empty frame for the table.
\<close>

theorem empty_response_sentinel:
  assumes "agent (enhanced_question question) = Inr result"
    and "content_of result = []"
  shows "ask_genie_structured agent question =
           \<lparr>answer = ''No response from Genie'', sql = [], df = DataFrame [] []\<rparr>"
  using assms by (simp add: ask_genie_structured_def)

theorem empty_response_sentinel_witness:
  "content_of (DictReply [DictMessage (Some ''user'') (Some ''hello''),
                          DictMessage (Some ''assistant'') (Some [])]) = [] \<and>
   ask_genie_structured
     (\<lambda>q. Inr (DictReply [DictMessage (Some ''user'') (Some ''hello''),
                            DictMessage (Some ''assistant'') (Some [])])) ''How are sales?'' =
     \<lparr>answer = ''No response from Genie'', sql = [], df = DataFrame [] []\<rparr>"
proof -
  have c: "content_of (DictReply [DictMessage (Some ''user'') (Some ''hello''),
                          DictMessage (Some ''assistant'') (Some [])]) = []"
    by (simp add: content_of_def)
  from empty_response_sentinel [OF refl c] c show ?thesis
    by simp
qed

subsection \<open>Scenario B\<close>

text \<open>
  C6, as the code has it: on the three lines of scenario B the table has the columns
  Type, Actual and Plan and exactly one row, whose cells are the string "Food" and the
  integers 100 and 120: the CSV reader converts the columns it can read as numbers.
\<close>

theorem scenario_b_table:
  "extract_data_from_text scenario_b =
     DataFrame [''Type'', ''Actual'', ''Plan''] [[StrCell ''Food'', IntCell 100, IntCell 120]]"
  by code_simp

text \<open>The cells of the Actual and the Plan column are not the strings "100" and "120".\<close>

theorem scenario_b_counterexample:
  "extract_data_from_text scenario_b \<noteq>
     DataFrame [''Type'', ''Actual'', ''Plan''] [[StrCell ''Food'', StrCell ''100'', StrCell ''120'']]"
  by code_simp


subsection \<open>Rows that do not fit the header\<close>























end
